theory Spec2Isabelle
  imports Main
begin

section \<open>JavaScript values and property reads\<close>

text \<open>
  The four \<open>Translator\<close> variants read a property of a plain object, test the value read
  for truthiness and either assign it to \<open>element.innerHTML\<close> or call \<open>console.warn\<close>.
  \<open>jsval\<close> are the values a translation table can hold: primitives and plain objects
  (object literals, results of \<open>JSON.parse\<close>). Numbers are restricted to integers; only
  their truthiness matters here.
\<close>

datatype error = TypeError

datatype jsval =
    JUndefined
  | JNull
  | JBool bool
  | JNum int
  | JStr string
  | JObj "(string \<times> jsval) list"

text \<open>
  What a property read can yield: a value of the table, or an object that belongs to the
  engine. \<open>Builtin n\<close> is a function or prototype object of the engine, named \<open>n\<close>;
  \<open>Builtin ''toString''\<close> is \<open>Object.prototype.toString\<close>.
\<close>

datatype reading = Data jsval | Builtin string

text \<open>\<open>ToBoolean\<close>, as applied by \<open>if (translation)\<close> and by \<open>||\<close>.\<close>

fun truthy :: "reading \<Rightarrow> bool" where
  "truthy (Data JUndefined) = False"
| "truthy (Data JNull) = False"
| "truthy (Data (JBool b)) = b"
| "truthy (Data (JNum n)) = (n \<noteq> 0)"
| "truthy (Data (JStr s)) = (s \<noteq> [])"
| "truthy (Data (JObj ps)) = True"
| "truthy (Builtin n) = True"

text \<open>
  The own properties of a plain object, one entry per property name. Such an object
  inherits from \<open>Object.prototype\<close>, whose property names (ECMA-262, 20.1.3 and B.2.2) are
  listed in \<open>object_prototype_names\<close>.
\<close>

type_synonym props = "(string \<times> jsval) list"

definition object_prototype_names :: "string list" where
  "object_prototype_names =
     [''constructor'', ''hasOwnProperty'', ''isPrototypeOf'', ''propertyIsEnumerable'',
      ''toLocaleString'', ''toString'', ''valueOf'', ''__proto__'',
      ''__defineGetter__'', ''__defineSetter__'', ''__lookupGetter__'', ''__lookupSetter__'']"

text \<open>
  \<open>o[k]\<close> on a plain object: the own property if there is one, otherwise the property
  inherited from \<open>Object.prototype\<close>, otherwise \<open>undefined\<close>. It never throws.
\<close>

definition obj_get :: "props \<Rightarrow> string \<Rightarrow> reading" where
  "obj_get ps k =
     (case map_of ps k of
        Some v \<Rightarrow> Data v
      | None \<Rightarrow> if k \<in> set object_prototype_names then Builtin k else Data JUndefined)"

text \<open>
  Reading property \<open>k\<close> of the builtin \<open>Object.prototype[n]\<close> is the engine's business
  (it may yield any value, or throw, as the restricted \<open>caller\<close> accessor of a function
  does). It is a parameter of the model: \<open>h n k\<close>.
\<close>

type_synonym host = "string \<Rightarrow> string \<Rightarrow> error + reading"

section \<open>The page, the console and the effects of a callback\<close>

text \<open>
  The document belongs to the browser, so it is a parameter: \<open>'p\<close> is the state of the
  page, \<open>'r\<close> the element objects. \<open>querySelectorAll D p\<close> is
  \<open>document.querySelectorAll('[data-translate]')\<close> on the page \<open>p\<close>: the matching elements in
  document order, each with its \<open>dataset.translate\<close>. \<open>set_innerHTML D el v p\<close> is the page
  after \<open>el.innerHTML = v\<close> for a value \<open>v\<close> that converts to a string. Nothing is assumed
  about either: an assignment may remove or create marked elements, in or under any element.
\<close>

record ('p, 'r) dom =
  querySelectorAll :: "'p \<Rightarrow> ('r \<times> string) list"
  set_innerHTML :: "'r \<Rightarrow> reading \<Rightarrow> 'p \<Rightarrow> 'p"

text \<open>
  \<open>console\<close> holds the lines passed to \<open>console.warn\<close> so far, oldest first.
\<close>

record 'p world =
  page :: 'p
  console :: "string list"

text \<open>
  What a call leaves behind: the page, the console, the assignments to \<open>innerHTML\<close> it made
  (element and value, in order), and how it completed: \<open>Inr v\<close> when it returned \<open>v\<close>,
  \<open>Inl e\<close> when it threw \<open>e\<close>.
\<close>

record ('p, 'r) outcome =
  page_after :: 'p
  console_after :: "string list"
  writes :: "('r \<times> reading) list"
  completion :: "error + jsval"

text \<open>
  The callbacks read nothing of their element but \<open>dataset.translate\<close>, and either assign
  to its \<open>innerHTML\<close>, or warn one line, or throw.
\<close>

datatype action = Assign reading | Warn string

text \<open>
  \<open>element.innerHTML = v\<close> converts \<open>v\<close> to a string first. Primitives convert, and so do
  the engine's functions and prototype objects. A plain object converts through its
  \<open>toString\<close>: the inherited one yields \<open>[object Object]\<close>; an own \<open>toString\<close> property holds
  a value of the table, which is not callable, and then neither the own nor the inherited
  \<open>valueOf\<close> yields a primitive, so the conversion throws a TypeError and nothing is
  assigned.
\<close>

fun converts :: "reading \<Rightarrow> bool" where
  "converts (Data (JObj ps)) = (map_of ps ''toString'' = None)"
| "converts (Data v) = True"
| "converts (Builtin n) = True"

definition assign_innerHTML :: "reading \<Rightarrow> error + action" where
  "assign_innerHTML v = (if converts v then Inr (Assign v) else Inl TypeError)"

text \<open>
  \<open>nodes.forEach(callback)\<close> on a node list taken before the loop. A throw ends the loop;
  what was assigned and warned before stays. \<open>forEach\<close> returns \<open>undefined\<close>, and so does a
  method whose body is this loop and has no \<open>return\<close>.
\<close>

fun forEach :: "('p, 'r) dom \<Rightarrow> (string \<Rightarrow> error + action) \<Rightarrow> ('r \<times> string) list \<Rightarrow> 'p world \<Rightarrow> ('p, 'r) outcome" where
  "forEach D f [] w =
     \<lparr>page_after = page w, console_after = console w, writes = [], completion = Inr JUndefined\<rparr>"
| "forEach D f ((el, key) # els) w =
     (case f key of
        Inl err \<Rightarrow>
          \<lparr>page_after = page w, console_after = console w, writes = [], completion = Inl err\<rparr>
      | Inr (Warn line) \<Rightarrow> forEach D f els (w\<lparr>console := console w @ [line]\<rparr>)
      | Inr (Assign v) \<Rightarrow>
          (let r = forEach D f els (w\<lparr>page := set_innerHTML D el v (page w)\<rparr>)
           in r\<lparr>writes := (el, v) # writes r\<rparr>))"

text \<open>
  The elements a loop gets through: those before the first element on which the callback
  throws.
\<close>

definition reached :: "(string \<Rightarrow> error + action) \<Rightarrow> ('r \<times> string) list \<Rightarrow> ('r \<times> string) list" where
  "reached f els = takeWhile (\<lambda>(el, key). \<not> isl (f key)) els"

text \<open>
  A page for examples: marked elements side by side, none inside another, whose contents
  hold no marked element. A cell is the \<open>data-translate\<close> value and the content of one
  element; the element objects are the positions.
\<close>

definition cells :: "((string \<times> reading) list, nat) dom" where
  "cells =
     \<lparr>querySelectorAll = (\<lambda>p. enumerate 0 (map fst p)),
      set_innerHTML = (\<lambda>el v p. p[el := (fst (p ! el), v)])\<rparr>"

section \<open>translation-data-attributes.js: one flat map\<close>

record translator_flat =
  translateMap :: props

text \<open>\<open>this.translateMap = translateMap || {}\<close>; \<open>None\<close> is an omitted (or null) argument.\<close>

definition constructor_flat :: "props option \<Rightarrow> translator_flat" where
  "constructor_flat tm = \<lparr>translateMap = (case tm of Some m \<Rightarrow> m | None \<Rightarrow> [])\<rparr>"

definition callback_flat :: "translator_flat \<Rightarrow> string \<Rightarrow> error + action" where
  "callback_flat this key =
     (let translation = obj_get (translateMap this) key
      in if truthy translation
         then assign_innerHTML translation
         else Inr (Warn (''Translation not found for key: '' @ key)))"

definition translate_flat :: "('p, 'r) dom \<Rightarrow> translator_flat \<Rightarrow> 'p world \<Rightarrow> ('p, 'r) outcome" where
  "translate_flat D this w = forEach D (callback_flat this) (querySelectorAll D (page w)) w"

section \<open>Several languages (src/unnamed/part_000)\<close>

record translator_ml =
  language :: string
  ml_translations :: "(string \<times> props) list"

text \<open>
  \<open>this.language = language || 'en'; this.translations = translations || {}\<close>.
  The empty string is falsy, so it also gives \<open>'en'\<close>.
\<close>

definition constructor_ml :: "string option \<Rightarrow> (string \<times> props) list option \<Rightarrow> translator_ml" where
  "constructor_ml lang tr =
     \<lparr>language = (case lang of Some l \<Rightarrow> if l \<noteq> [] then l else ''en'' | None \<Rightarrow> ''en''),
      ml_translations = (case tr of Some t \<Rightarrow> t | None \<Rightarrow> [])\<rparr>"

definition setLanguage :: "string \<Rightarrow> translator_ml \<Rightarrow> translator_ml" where
  "setLanguage lang this = this\<lparr>language := lang\<rparr>"

text \<open>
  \<open>table[lang]?.[key]\<close>, where every own property of \<open>table\<close> is a plain object. When
  \<open>table\<close> has no own property \<open>lang\<close>, the first read yields \<open>undefined\<close> and \<open>?.\<close> stops
  there, unless \<open>lang\<close> names a property of \<open>Object.prototype\<close>: then the second read is
  a read of that builtin.
\<close>

definition resolve :: "host \<Rightarrow> (string \<times> props) list \<Rightarrow> string \<Rightarrow> string \<Rightarrow> error + reading" where
  "resolve h table lang key =
     (case map_of table lang of
        Some sub \<Rightarrow> Inr (obj_get sub key)
      | None \<Rightarrow> if lang \<in> set object_prototype_names then h lang key else Inr (Data JUndefined))"

definition callback_ml :: "host \<Rightarrow> translator_ml \<Rightarrow> string \<Rightarrow> error + action" where
  "callback_ml h this key =
     (case resolve h (ml_translations this) (language this) key of
        Inl err \<Rightarrow> Inl err
      | Inr translation \<Rightarrow>
          if truthy translation
          then assign_innerHTML translation
          else Inr (Warn (''Translation not found for key: '' @ key @ '' in language: '' @ language this)))"

definition translate_ml :: "('p, 'r) dom \<Rightarrow> host \<Rightarrow> translator_ml \<Rightarrow> 'p world \<Rightarrow> ('p, 'r) outcome" where
  "translate_ml D h this w = forEach D (callback_ml h this) (querySelectorAll D (page w)) w"

section \<open>Proxy (src/unnamed/part_001)\<close>

text \<open>
  \<open>this.translations = translations\<close>, with no default: \<open>None\<close> is an omitted argument,
  which leaves the field \<open>undefined\<close>.
\<close>

record translator_dyn =
  dyn_translations :: "props option"

definition constructor_dyn :: "props option \<Rightarrow> translator_dyn" where
  "constructor_dyn tr = \<lparr>dyn_translations = tr\<rparr>"

text \<open>
  The \<open>get\<close> trap of the proxy the constructor returns. Every property read on the proxy,
  whatever the name, runs it: \<open>target.translations[prop] || `Translation not found for
  key: ${prop}`\<close>. Reading a property of \<open>undefined\<close> throws a TypeError.
\<close>

definition proxy_get :: "translator_dyn \<Rightarrow> string \<Rightarrow> error + reading" where
  "proxy_get target prop =
     (case dyn_translations target of
        None \<Rightarrow> Inl TypeError
      | Some t \<Rightarrow>
          (let v = obj_get t prop
           in Inr (if truthy v then v else Data (JStr (''Translation not found for key: '' @ prop)))))"

text \<open>The documented usage: \<open>element.innerHTML = translations[key]\<close> for every element.\<close>

definition callback_dyn :: "translator_dyn \<Rightarrow> string \<Rightarrow> error + action" where
  "callback_dyn proxy key =
     (case proxy_get proxy key of
        Inl err \<Rightarrow> Inl err
      | Inr v \<Rightarrow> assign_innerHTML v)"

definition usage_dyn :: "('p, 'r) dom \<Rightarrow> translator_dyn \<Rightarrow> 'p world \<Rightarrow> ('p, 'r) outcome" where
  "usage_dyn D proxy w = forEach D (callback_dyn proxy) (querySelectorAll D (page w)) w"

section \<open>Locale formatter (src/unnamed/part_002)\<close>

text \<open>
  \<open>Intl.MessageFormat\<close> is not part of the repository, so the constructor it provides is a
  parameter: \<open>mf messages loc\<close> is \<open>new Intl.MessageFormat(messages, loc)\<close>, which throws or
  yields a formatter \<open>fmt\<close>, where \<open>fmt key\<close> is \<open>fmt.format({ id: key })\<close>.
\<close>

type_synonym message_format = "reading \<Rightarrow> string \<Rightarrow> error + (string \<Rightarrow> error + reading)"

record translator_intl =
  intl_locale :: string
  intl_translations :: "(string \<times> props) list"
  formatter :: "string \<Rightarrow> error + reading"

text \<open>
  \<open>this.locale = locale || 'en-US'; this.translations = translations || {};
  this.formatter = new Intl.MessageFormat(this.translations[this.locale] || {}, this.locale)\<close>.
\<close>

definition constructor_intl :: "message_format \<Rightarrow> string option \<Rightarrow> (string \<times> props) list option \<Rightarrow> error + translator_intl" where
  "constructor_intl mf loc tr =
     (let l = (case loc of Some l \<Rightarrow> if l \<noteq> [] then l else ''en-US'' | None \<Rightarrow> ''en-US'');
          t = (case tr of Some t \<Rightarrow> t | None \<Rightarrow> []);
          messages = (case map_of t l of
                        Some sub \<Rightarrow> Data (JObj sub)
                      | None \<Rightarrow> if l \<in> set object_prototype_names then Builtin l else Data (JObj []))
      in case mf messages l of
           Inl err \<Rightarrow> Inl err
         | Inr fmt \<Rightarrow> Inr \<lparr>intl_locale = l, intl_translations = t, formatter = fmt\<rparr>)"

text \<open>
  \<open>setLocale\<close> assigns the locale first, so a throwing \<open>Intl.MessageFormat\<close> leaves the new
  locale with the old formatter.
\<close>

definition setLocale :: "message_format \<Rightarrow> string \<Rightarrow> translator_intl \<Rightarrow> translator_intl \<times> (error + jsval)" where
  "setLocale mf loc this =
     (let messages = (case map_of (intl_translations this) loc of
                        Some sub \<Rightarrow> Data (JObj sub)
                      | None \<Rightarrow> if loc \<in> set object_prototype_names then Builtin loc else Data (JObj []))
      in case mf messages loc of
           Inl err \<Rightarrow> (this\<lparr>intl_locale := loc\<rparr>, Inl err)
         | Inr fmt \<Rightarrow> (this\<lparr>intl_locale := loc, formatter := fmt\<rparr>, Inr JUndefined))"

definition callback_intl :: "translator_intl \<Rightarrow> string \<Rightarrow> error + action" where
  "callback_intl this key =
     (case formatter this key of
        Inl err \<Rightarrow> Inl err
      | Inr translation \<Rightarrow>
          if truthy translation
          then assign_innerHTML translation
          else Inr (Warn (''Translation not found for key: '' @ key @ '' in locale: '' @ intl_locale this)))"

definition translate_intl :: "('p, 'r) dom \<Rightarrow> translator_intl \<Rightarrow> 'p world \<Rightarrow> ('p, 'r) outcome" where
  "translate_intl D this w = forEach D (callback_intl this) (querySelectorAll D (page w)) w"


section \<open>The loop\<close>

text \<open>
  Closed forms of what \<open>forEach\<close> leaves behind, for any callback and any page: the
  assignments and the warned lines are those of the elements it got through, in order, the
  page is the page after these assignments, and it returns exactly when no callback throws.
\<close>

lemma forEach_writes:
  "writes (forEach D f els w) =
     concat (map (\<lambda>(el, key). case f key of Inr (Assign v) \<Rightarrow> [(el, v)] | _ \<Rightarrow> []) (reached f els))"
proof (induction els arbitrary: w)
  case Nil
  then show ?case by (simp add: reached_def)
next
  case (Cons a els)
  obtain el key where a: "a = (el, key)" by (cases a)
  show ?case
    unfolding a using Cons.IH
    by (cases "f key") (simp_all add: reached_def Let_def split: action.splits)
qed

lemma forEach_console:
  "console_after (forEach D f els w) =
     console w @
     concat (map (\<lambda>(el, key). case f key of Inr (Warn line) \<Rightarrow> [line] | _ \<Rightarrow> []) (reached f els))"
proof (induction els arbitrary: w)
  case Nil
  then show ?case by (simp add: reached_def)
next
  case (Cons a els)
  obtain el key where a: "a = (el, key)" by (cases a)
  show ?case
    unfolding a using Cons.IH
    by (cases "f key") (simp_all add: reached_def Let_def split: action.splits)
qed



lemma forEach_returned:
  "completion (forEach D f els w) = Inr v \<longleftrightarrow> v = JUndefined \<and> (\<forall>(el, key) \<in> set els. \<not> isl (f key))"
proof (induction els arbitrary: w)
  case Nil
  then show ?case by auto
next
  case (Cons a els)
  obtain el key where a: "a = (el, key)" by (cases a)
  show ?case
    unfolding a using Cons.IH
    by (cases "f key") (auto simp: Let_def split: action.splits)
qed

lemma reached_all:
  "completion (forEach D f els w) = Inr v \<Longrightarrow> reached f els = els"
  by (auto simp: forEach_returned reached_def)

lemma reached_subset: "set (reached f els) \<subseteq> set els"
  by (auto simp: reached_def dest: set_takeWhileD)

section \<open>What each variant's translate() does\<close>

text \<open>
  The three static callbacks read a value, assign it when it is truthy and warn otherwise.
  So a call assigns the value read to the elements it got through whose read is truthy,
  and warns the variant's line for those whose read is falsy.
\<close>

lemma forEach_reads:
  assumes f: "\<And>key. f key = (case read key of
                              Inl err \<Rightarrow> Inl err
                            | Inr t \<Rightarrow> if truthy t then assign_innerHTML t else Inr (Warn (line key)))"
  shows "writes (forEach D f els w) =
           map (\<lambda>(el, key). (el, projr (read key)))
               (filter (\<lambda>(el, key). truthy (projr (read key))) (reached f els))"
    and "console_after (forEach D f els w) =
           console w @ map (\<lambda>(el, key). line key)
                           (filter (\<lambda>(el, key). \<not> truthy (projr (read key))) (reached f els))"
proof -
  have r: "\<exists>t. read key = Inr t \<and> (truthy t \<longrightarrow> converts t)" if "(el, key) \<in> set (reached f els)" for el key
  proof -
    from that have "\<not> isl (f key)"
      by (auto simp: reached_def dest: set_takeWhileD)
    then show ?thesis
      by (cases "read key") (auto simp: f assign_innerHTML_def split: if_splits)
  qed
  have A: "concat (map (\<lambda>(el, key). case f key of Inr (Assign v) \<Rightarrow> [(el, v)] | _ \<Rightarrow> []) xs) =
           map (\<lambda>(el, key). (el, projr (read key))) (filter (\<lambda>(el, key). truthy (projr (read key))) xs)"
    if "set xs \<subseteq> set (reached f els)" for xs
    using that
  proof (induction xs)
    case Nil
    then show ?case by simp
  next
    case (Cons a xs)
    obtain el key where a: "a = (el, key)" by (cases a)
    from Cons.prems r [of el key] obtain t where "read key = Inr t" "truthy t \<longrightarrow> converts t"
      unfolding a by auto
    then show ?case
      unfolding a using Cons by (simp add: f assign_innerHTML_def)
  qed
  have B: "concat (map (\<lambda>(el, key). case f key of Inr (Warn l) \<Rightarrow> [l] | _ \<Rightarrow> []) xs) =
           map (\<lambda>(el, key). line key) (filter (\<lambda>(el, key). \<not> truthy (projr (read key))) xs)"
    if "set xs \<subseteq> set (reached f els)" for xs
    using that
  proof (induction xs)
    case Nil
    then show ?case by simp
  next
    case (Cons a xs)
    obtain el key where a: "a = (el, key)" by (cases a)
    from Cons.prems r [of el key] obtain t where "read key = Inr t" "truthy t \<longrightarrow> converts t"
      unfolding a by auto
    then show ?case
      unfolding a using Cons by (simp add: f assign_innerHTML_def)
  qed
  show "writes (forEach D f els w) =
           map (\<lambda>(el, key). (el, projr (read key)))
               (filter (\<lambda>(el, key). truthy (projr (read key))) (reached f els))"
    unfolding forEach_writes by (rule A) simp
  show "console_after (forEach D f els w) =
           console w @ map (\<lambda>(el, key). line key)
                           (filter (\<lambda>(el, key). \<not> truthy (projr (read key))) (reached f els))"
    unfolding forEach_console using B [of "reached f els"] by simp
qed

lemma callback_flat_reads:
  "callback_flat this key =
     (case Inr (obj_get (translateMap this) key) of
        Inl err \<Rightarrow> Inl err
      | Inr t \<Rightarrow> if truthy t then assign_innerHTML t
                 else Inr (Warn ((\<lambda>key. ''Translation not found for key: '' @ key) key)))"
  by (simp add: callback_flat_def Let_def)

lemma translate_flat_effects:
  "writes (translate_flat D this w) =
     map (\<lambda>(el, key). (el, obj_get (translateMap this) key))
         (filter (\<lambda>(el, key). truthy (obj_get (translateMap this) key))
                 (reached (callback_flat this) (querySelectorAll D (page w))))"
  "console_after (translate_flat D this w) =
     console w @ map (\<lambda>(el, key). ''Translation not found for key: '' @ key)
         (filter (\<lambda>(el, key). \<not> truthy (obj_get (translateMap this) key))
                 (reached (callback_flat this) (querySelectorAll D (page w))))"
  unfolding translate_flat_def
  using forEach_reads [where f = "callback_flat this" and read = "\<lambda>key. Inr (obj_get (translateMap this) key)"
      and line = "\<lambda>key. ''Translation not found for key: '' @ key", OF callback_flat_reads]
  by simp_all

lemma translate_ml_effects:
  "writes (translate_ml D h this w) =
     map (\<lambda>(el, key). (el, projr (resolve h (ml_translations this) (language this) key)))
         (filter (\<lambda>(el, key). truthy (projr (resolve h (ml_translations this) (language this) key)))
                 (reached (callback_ml h this) (querySelectorAll D (page w))))"
  "console_after (translate_ml D h this w) =
     console w @ map (\<lambda>(el, key). ''Translation not found for key: '' @ key @ '' in language: '' @ language this)
         (filter (\<lambda>(el, key). \<not> truthy (projr (resolve h (ml_translations this) (language this) key)))
                 (reached (callback_ml h this) (querySelectorAll D (page w))))"
  unfolding translate_ml_def
  using forEach_reads [where f = "callback_ml h this"
      and read = "resolve h (ml_translations this) (language this)"
      and line = "\<lambda>key. ''Translation not found for key: '' @ key @ '' in language: '' @ language this"]
  by (simp_all add: callback_ml_def)

lemma translate_intl_effects:
  "writes (translate_intl D this w) =
     map (\<lambda>(el, key). (el, projr (formatter this key)))
         (filter (\<lambda>(el, key). truthy (projr (formatter this key)))
                 (reached (callback_intl this) (querySelectorAll D (page w))))"
  "console_after (translate_intl D this w) =
     console w @ map (\<lambda>(el, key). ''Translation not found for key: '' @ key @ '' in locale: '' @ intl_locale this)
         (filter (\<lambda>(el, key). \<not> truthy (projr (formatter this key)))
                 (reached (callback_intl this) (querySelectorAll D (page w))))"
  unfolding translate_intl_def
  using forEach_reads [where f = "callback_intl this"
      and read = "formatter this"
      and line = "\<lambda>key. ''Translation not found for key: '' @ key @ '' in locale: '' @ intl_locale this"]
  by (simp_all add: callback_intl_def)

lemma obj_get_converts:
  "\<forall>v \<in> snd ` set ps. converts (Data v) \<Longrightarrow> converts (obj_get ps key)"
  by (auto simp: obj_get_def split: option.splits dest!: map_of_SomeD intro: rev_image_eqI)

lemma translate_flat_returns:
  assumes "\<forall>v \<in> snd ` set (translateMap this). converts (Data v)"
  shows "completion (translate_flat D this w) = Inr JUndefined"
  using obj_get_converts [OF assms]
  by (auto simp: translate_flat_def forEach_returned callback_flat_def assign_innerHTML_def Let_def)

lemma translate_ml_returns:
  assumes "map_of (ml_translations this) (language this) = Some sub"
    and "\<forall>v \<in> snd ` set sub. converts (Data v)"
  shows "completion (translate_ml D h this w) = Inr JUndefined"
  using obj_get_converts [OF assms(2)] assms(1)
  by (auto simp: translate_ml_def forEach_returned callback_ml_def resolve_def assign_innerHTML_def Let_def)

lemma length_filter_both:
  "length (map f (filter (\<lambda>(el, key). P key) xs)) +
   length (ys @ map g (filter (\<lambda>(el, key). \<not> P key) xs)) = length xs + length ys"
  by (induction xs) auto


lemma warn_iff:
  "((case r of Inl err \<Rightarrow> Inl err
     | Inr t \<Rightarrow> if truthy t then assign_innerHTML t else Inr (Warn m)) = Inr (Warn l))
   \<longleftrightarrow> (\<exists>t. r = Inr t \<and> \<not> truthy t) \<and> l = m"
  by (cases r) (auto simp: assign_innerHTML_def)

lemma filter_reached_reads:
  assumes f: "\<And>key. f key = (case read key of
                              Inl err \<Rightarrow> Inl err
                            | Inr t \<Rightarrow> if truthy t then assign_innerHTML t else Inr (Warn (line key)))"
  shows "filter (\<lambda>(el, key). \<not> truthy (projr (read key))) (reached f els) =
         filter (\<lambda>(el, key). case read key of Inl err \<Rightarrow> False | Inr t \<Rightarrow> \<not> truthy t) (reached f els)"
proof (rule filter_cong [OF refl])
  fix x assume x: "x \<in> set (reached f els)"
  obtain el key where xx: "x = (el, key)" by (cases x)
  from x have "\<not> isl (f key)"
    unfolding xx by (auto simp: reached_def dest: set_takeWhileD)
  then obtain t where "read key = Inr t"
    by (cases "read key") (simp_all add: f)
  then show "(case x of (el, key) \<Rightarrow> \<not> truthy (projr (read key))) =
             (case x of (el, key) \<Rightarrow> (case read key of Inl err \<Rightarrow> False | Inr t \<Rightarrow> \<not> truthy t))"
    unfolding xx by simp
qed

text \<open>
  The definitions to unfold when a call is evaluated on a given page.
\<close>

lemmas ev = translate_flat_def translate_ml_def usage_dyn_def translate_intl_def cells_def
  callback_flat_def callback_ml_def callback_dyn_def callback_intl_def proxy_get_def resolve_def
  obj_get_def object_prototype_names_def assign_innerHTML_def constructor_flat_def constructor_ml_def
  constructor_dyn_def setLanguage_def Let_def

section \<open>Keys the table holds\<close>

text \<open>
  Claim C1. For every key \<open>K\<close> that the table (in the multi-language variant: the sub-map of
  the active language) holds with a non-empty text \<open>V\<close>, the read yields \<open>V\<close>, which is
  truthy (the lookup is \<open>Found(V)\<close>), and the callback run on an element whose
  \<open>data-translate\<close> key is \<open>K\<close> assigns \<open>V\<close> to its \<open>innerHTML\<close>. In a call of
  \<open>translate()\<close> every such element the loop gets to is assigned \<open>V\<close>; that is every such
  element of the page when the call returns, and the call does return when every value of
  the table converts to a string, as every text does.
\<close>

theorem present_key_is_found:
  "V \<noteq> [] \<Longrightarrow>
   (map_of (translateMap tf) K = Some (JStr V) \<longrightarrow>
      obj_get (translateMap tf) K = Data (JStr V) \<and> truthy (Data (JStr V)) \<and>
      callback_flat tf K = Inr (Assign (Data (JStr V))) \<and>
      (\<forall>el. (el, K) \<in> set (reached (callback_flat tf) (querySelectorAll D (page w))) \<longrightarrow>
            (el, Data (JStr V)) \<in> set (writes (translate_flat D tf w))) \<and>
      (completion (translate_flat D tf w) = Inr u \<longrightarrow>
         (\<forall>el. (el, K) \<in> set (querySelectorAll D (page w)) \<longrightarrow>
               (el, Data (JStr V)) \<in> set (writes (translate_flat D tf w)))) \<and>
      ((\<forall>v \<in> snd ` set (translateMap tf). converts (Data v)) \<longrightarrow>
         completion (translate_flat D tf w) = Inr JUndefined)) \<and>
   (map_of (ml_translations tm) (language tm) = Some sub \<and> map_of sub K = Some (JStr V) \<longrightarrow>
      resolve h (ml_translations tm) (language tm) K = Inr (Data (JStr V)) \<and> truthy (Data (JStr V)) \<and>
      callback_ml h tm K = Inr (Assign (Data (JStr V))) \<and>
      (\<forall>el. (el, K) \<in> set (reached (callback_ml h tm) (querySelectorAll D (page w))) \<longrightarrow>
            (el, Data (JStr V)) \<in> set (writes (translate_ml D h tm w))) \<and>
      (completion (translate_ml D h tm w) = Inr u' \<longrightarrow>
         (\<forall>el. (el, K) \<in> set (querySelectorAll D (page w)) \<longrightarrow>
               (el, Data (JStr V)) \<in> set (writes (translate_ml D h tm w)))) \<and>
      ((\<forall>v \<in> snd ` set sub. converts (Data v)) \<longrightarrow>
         completion (translate_ml D h tm w) = Inr JUndefined))"
proof (intro conjI impI allI)
  assume V: "V \<noteq> []" and K: "map_of (translateMap tf) K = Some (JStr V)"
  show g: "obj_get (translateMap tf) K = Data (JStr V)"
    using K by (simp add: obj_get_def)
  show "truthy (Data (JStr V))" using V by simp
  show "callback_flat tf K = Inr (Assign (Data (JStr V)))"
    using g V by (simp add: callback_flat_def assign_innerHTML_def)
  show r: "(el, Data (JStr V)) \<in> set (writes (translate_flat D tf w))"
    if "(el, K) \<in> set (reached (callback_flat tf) (querySelectorAll D (page w)))" for el
    unfolding translate_flat_effects using that g V by (force simp: image_iff)
  show "(el, Data (JStr V)) \<in> set (writes (translate_flat D tf w))"
    if "completion (translate_flat D tf w) = Inr u" "(el, K) \<in> set (querySelectorAll D (page w))" for el
    using r [of el] that reached_all [of D "callback_flat tf" "querySelectorAll D (page w)" w u]
    by (simp add: translate_flat_def)
  show "completion (translate_flat D tf w) = Inr JUndefined"
    if "\<forall>v \<in> snd ` set (translateMap tf). converts (Data v)"
    using that by (rule translate_flat_returns)
next
  assume V: "V \<noteq> []"
    and K: "map_of (ml_translations tm) (language tm) = Some sub \<and> map_of sub K = Some (JStr V)"
  show g: "resolve h (ml_translations tm) (language tm) K = Inr (Data (JStr V))"
    using K by (simp add: resolve_def obj_get_def)
  show "truthy (Data (JStr V))" using V by simp
  show "callback_ml h tm K = Inr (Assign (Data (JStr V)))"
    using g V by (simp add: callback_ml_def assign_innerHTML_def)
  show r: "(el, Data (JStr V)) \<in> set (writes (translate_ml D h tm w))"
    if "(el, K) \<in> set (reached (callback_ml h tm) (querySelectorAll D (page w)))" for el
    unfolding translate_ml_effects using that g V by (force simp: image_iff)
  show "(el, Data (JStr V)) \<in> set (writes (translate_ml D h tm w))"
    if "completion (translate_ml D h tm w) = Inr u'" "(el, K) \<in> set (querySelectorAll D (page w))" for el
    using r [of el] that reached_all [of D "callback_ml h tm" "querySelectorAll D (page w)" w u']
    by (simp add: translate_ml_def)
  show "completion (translate_ml D h tm w) = Inr JUndefined"
    if "\<forall>v \<in> snd ` set sub. converts (Data v)"
    using K that by (intro translate_ml_returns) auto
qed

theorem present_key_is_found_witness:
  "translate_flat cells (constructor_flat (Some [(''hello'', JStr ''Hello''), (''goodbye'', JStr ''Bye'')]))
      \<lparr>page = [(''goodbye'', Data (JStr ''a''))], console = []\<rparr>
     = \<lparr>page_after = [(''goodbye'', Data (JStr ''Bye''))], console_after = [],
        writes = [(0, Data (JStr ''Bye''))], completion = Inr JUndefined\<rparr> \<and>
   translate_ml cells (\<lambda>n k. Inr (Data JUndefined))
      (constructor_ml (Some ''uk'')
         (Some [(''en'', [(''hello'', JStr ''Hello'')]), (''uk'', [(''hello'', JStr ''Pryvit'')])]))
      \<lparr>page = [(''hello'', Data (JStr ''a''))], console = []\<rparr>
     = \<lparr>page_after = [(''hello'', Data (JStr ''Pryvit''))], console_after = [],
        writes = [(0, Data (JStr ''Pryvit''))], completion = Inr JUndefined\<rparr>"
  using present_key_is_found [where V = "''Bye''" and K = "''goodbye''" and D = cells and u = JUndefined
      and tf = "constructor_flat (Some [(''hello'', JStr ''Hello''), (''goodbye'', JStr ''Bye'')])"
      and w = "\<lparr>page = [(''goodbye'', Data (JStr ''a''))], console = []\<rparr>"]
    present_key_is_found [where V = "''Pryvit''" and K = "''hello''" and D = cells and u' = JUndefined
      and h = "\<lambda>n k. Inr (Data JUndefined)" and sub = "[(''hello'', JStr ''Pryvit'')]"
      and tm = "constructor_ml (Some ''uk'')
         (Some [(''en'', [(''hello'', JStr ''Hello'')]), (''uk'', [(''hello'', JStr ''Pryvit'')])])"
      and w = "\<lparr>page = [(''hello'', Data (JStr ''a''))], console = []\<rparr>"]
  by (simp add: ev)

section \<open>Keys the table does not hold\<close>

text \<open>
  A key that is neither an own property of the table nor a property name of
  \<open>Object.prototype\<close> reads as \<open>undefined\<close>: the static variant warns and assigns nothing,
  the proxy yields the placeholder, which ends with the key.
\<close>

lemma absent_plain_key:
  assumes "map_of ps k = None" and "k \<notin> set object_prototype_names"
  shows "obj_get ps k = Data JUndefined"
    and "callback_flat \<lparr>translateMap = ps\<rparr> k = Inr (Warn (''Translation not found for key: '' @ k))"
    and "proxy_get \<lparr>dyn_translations = Some ps\<rparr> k = Inr (Data (JStr (''Translation not found for key: '' @ k)))"
  using assms by (simp_all add: obj_get_def callback_flat_def proxy_get_def)

text \<open>
  Claim C2 says that every key absent from the table is not found by the static variant
  and yields the placeholder in the proxy variant. The read \<open>table[key]\<close> also sees the
  properties every plain object inherits: with the table of the usage example and an element
  marked \<open>data-translate="constructor"\<close>, the key is absent from the table, yet the static
  callback takes the \<open>if\<close> branch and assigns the builtin \<open>Object\<close> function to the
  element, with no warning, and the proxy returns that function, not a placeholder string.
\<close>

theorem inherited_key_is_found:
  "map_of [(''hello'', JStr ''Hello''), (''goodbye'', JStr ''Bye'')] ''constructor'' = None \<and>
   callback_flat (constructor_flat (Some [(''hello'', JStr ''Hello''), (''goodbye'', JStr ''Bye'')])) ''constructor''
     = Inr (Assign (Builtin ''constructor'')) \<and>
   proxy_get (constructor_dyn (Some [(''hello'', JStr ''Hello''), (''goodbye'', JStr ''Bye'')])) ''constructor''
     = Inr (Builtin ''constructor'')"
  by (simp add: ev)

section \<open>What translate() returns\<close>

text \<open>
  Claim C3 says that applying a batch returns a summary \<open>{applied, missing}\<close>. The method
  has no \<open>return\<close> statement: for a page with one element whose key is found it returns
  \<open>undefined\<close>, not \<open>{applied: 1, missing: 0}\<close>.
\<close>

theorem translate_returns_no_counts_counterexample:
  "completion (translate_flat cells (constructor_flat (Some [(''hello'', JStr ''Hello'')]))
      \<lparr>page = [(''hello'', Data (JStr ''a''))], console = []\<rparr>)
     = Inr JUndefined \<and>
   completion (translate_flat cells (constructor_flat (Some [(''hello'', JStr ''Hello'')]))
      \<lparr>page = [(''hello'', Data (JStr ''a''))], console = []\<rparr>)
     \<noteq> Inr (JObj [(''applied'', JNum 1), (''missing'', JNum 0)])"
  by (simp add: ev)

text \<open>
  Claim C3, amended. \<open>translate()\<close> returns no summary: whenever it returns, it returns
  \<open>undefined\<close>. The counts are carried by its effects: a call that returns has assigned the
  value read to exactly the elements whose read is truthy (applied), has warned exactly one
  line, in document order, for each element whose read is falsy (missing), and the two
  numbers add up to the number of elements.
\<close>

theorem translate_effects_give_counts:
  "(completion (translate_flat D tf w) = Inr v \<longrightarrow>
      v = JUndefined \<and>
      writes (translate_flat D tf w) =
        map (\<lambda>(el, key). (el, obj_get (translateMap tf) key))
            (filter (\<lambda>(el, key). truthy (obj_get (translateMap tf) key)) (querySelectorAll D (page w))) \<and>
      console_after (translate_flat D tf w) =
        console w @ map (\<lambda>(el, key). ''Translation not found for key: '' @ key)
            (filter (\<lambda>(el, key). \<not> truthy (obj_get (translateMap tf) key)) (querySelectorAll D (page w))) \<and>
      length (writes (translate_flat D tf w)) + length (console_after (translate_flat D tf w))
        = length (querySelectorAll D (page w)) + length (console w)) \<and>
   (completion (translate_ml D h tm w) = Inr v' \<longrightarrow>
      v' = JUndefined \<and>
      (\<forall>(el, key) \<in> set (querySelectorAll D (page w)).
          \<exists>t. resolve h (ml_translations tm) (language tm) key = Inr t) \<and>
      writes (translate_ml D h tm w) =
        map (\<lambda>(el, key). (el, projr (resolve h (ml_translations tm) (language tm) key)))
            (filter (\<lambda>(el, key). truthy (projr (resolve h (ml_translations tm) (language tm) key)))
                    (querySelectorAll D (page w))) \<and>
      console_after (translate_ml D h tm w) =
        console w @ map (\<lambda>(el, key). ''Translation not found for key: '' @ key @ '' in language: '' @ language tm)
            (filter (\<lambda>(el, key). \<not> truthy (projr (resolve h (ml_translations tm) (language tm) key)))
                    (querySelectorAll D (page w))) \<and>
      length (writes (translate_ml D h tm w)) + length (console_after (translate_ml D h tm w))
        = length (querySelectorAll D (page w)) + length (console w))"
proof (intro conjI impI)
  assume ret: "completion (translate_flat D tf w) = Inr v"
  then have all: "reached (callback_flat tf) (querySelectorAll D (page w)) = querySelectorAll D (page w)"
    unfolding translate_flat_def by (rule reached_all)
  show "v = JUndefined"
    using ret by (simp add: translate_flat_def forEach_returned)
  show "writes (translate_flat D tf w) =
        map (\<lambda>(el, key). (el, obj_get (translateMap tf) key))
            (filter (\<lambda>(el, key). truthy (obj_get (translateMap tf) key)) (querySelectorAll D (page w)))"
    unfolding translate_flat_effects all ..
  show "console_after (translate_flat D tf w) =
        console w @ map (\<lambda>(el, key). ''Translation not found for key: '' @ key)
            (filter (\<lambda>(el, key). \<not> truthy (obj_get (translateMap tf) key)) (querySelectorAll D (page w)))"
    unfolding translate_flat_effects all ..
  show "length (writes (translate_flat D tf w)) + length (console_after (translate_flat D tf w))
        = length (querySelectorAll D (page w)) + length (console w)"
    unfolding translate_flat_effects all by (rule length_filter_both)
next
  assume ret: "completion (translate_ml D h tm w) = Inr v'"
  then have all: "reached (callback_ml h tm) (querySelectorAll D (page w)) = querySelectorAll D (page w)"
    unfolding translate_ml_def by (rule reached_all)
  show "v' = JUndefined"
    using ret by (simp add: translate_ml_def forEach_returned)
  show "\<forall>(el, key) \<in> set (querySelectorAll D (page w)).
          \<exists>t. resolve h (ml_translations tm) (language tm) key = Inr t"
  proof (clarify)
    fix el key assume "(el, key) \<in> set (querySelectorAll D (page w))"
    with ret have "\<not> isl (callback_ml h tm key)"
      by (auto simp: translate_ml_def forEach_returned)
    then show "\<exists>t. resolve h (ml_translations tm) (language tm) key = Inr t"
      by (cases "resolve h (ml_translations tm) (language tm) key") (simp_all add: callback_ml_def)
  qed
  show "writes (translate_ml D h tm w) =
        map (\<lambda>(el, key). (el, projr (resolve h (ml_translations tm) (language tm) key)))
            (filter (\<lambda>(el, key). truthy (projr (resolve h (ml_translations tm) (language tm) key)))
                    (querySelectorAll D (page w)))"
    unfolding translate_ml_effects all ..
  show "console_after (translate_ml D h tm w) =
        console w @ map (\<lambda>(el, key). ''Translation not found for key: '' @ key @ '' in language: '' @ language tm)
            (filter (\<lambda>(el, key). \<not> truthy (projr (resolve h (ml_translations tm) (language tm) key)))
                    (querySelectorAll D (page w)))"
    unfolding translate_ml_effects all ..
  show "length (writes (translate_ml D h tm w)) + length (console_after (translate_ml D h tm w))
        = length (querySelectorAll D (page w)) + length (console w)"
    unfolding translate_ml_effects all by (rule length_filter_both)
qed

theorem translate_effects_give_counts_witness:
  "translate_flat cells (constructor_flat (Some [(''hello'', JStr ''Hello'')]))
      \<lparr>page = [(''hello'', Data (JStr ''a'')), (''bye'', Data (JStr ''b''))], console = []\<rparr>
     = \<lparr>page_after = [(''hello'', Data (JStr ''Hello'')), (''bye'', Data (JStr ''b''))],
        console_after = [''Translation not found for key: bye''],
        writes = [(0, Data (JStr ''Hello''))], completion = Inr JUndefined\<rparr> \<and>
   translate_ml cells (\<lambda>n k. Inr (Data JUndefined))
      (constructor_ml (Some ''uk'') (Some [(''en'', [(''hello'', JStr ''Hello''), (''goodbye'', JStr ''Goodbye'')]),
                                          (''uk'', [(''hello'', JStr ''Pryvit'')])]))
      \<lparr>page = [(''hello'', Data (JStr ''a'')), (''goodbye'', Data (JStr ''b''))], console = []\<rparr>
     = \<lparr>page_after = [(''hello'', Data (JStr ''Pryvit'')), (''goodbye'', Data (JStr ''b''))],
        console_after = [''Translation not found for key: goodbye in language: uk''],
        writes = [(0, Data (JStr ''Pryvit''))], completion = Inr JUndefined\<rparr>"
  using translate_effects_give_counts [where D = cells and v = JUndefined and v' = JUndefined
      and tf = "constructor_flat (Some [(''hello'', JStr ''Hello'')])"
      and w = "\<lparr>page = [(''hello'', Data (JStr ''a'')), (''bye'', Data (JStr ''b''))], console = []\<rparr>"]
    translate_effects_give_counts [where D = cells and v = JUndefined and v' = JUndefined
      and h = "\<lambda>n k. Inr (Data JUndefined)"
      and tm = "constructor_ml (Some ''uk'') (Some [(''en'', [(''hello'', JStr ''Hello''), (''goodbye'', JStr ''Goodbye'')]),
                                          (''uk'', [(''hello'', JStr ''Pryvit'')])])"
      and w = "\<lparr>page = [(''hello'', Data (JStr ''a'')), (''goodbye'', Data (JStr ''b''))], console = []\<rparr>"]
  by (simp add: ev)

section \<open>A missing key stays local\<close>

text \<open>
  Claim C4 says that a request whose key is missing leaves its target unchanged, emits a
  diagnostic, is never thrown and never aborts the batch. For a key missing from the table
  that names a property of \<open>Object.prototype\<close> the read is the inherited builtin: the
  element marked \<open>constructor\<close> is overwritten and nothing is warned, in the flat and in
  the multi-language variant. And when the active language itself names such a property
  and has no sub-map, the second read is a read of the builtin, which can throw:
  in an engine where \<open>Object.caller\<close> throws, the key \<open>caller\<close> aborts the batch before the
  next element.
\<close>

theorem inherited_key_is_overwritten:
  "map_of [(''hello'', JStr ''Hello'')] ''constructor'' = None \<and>
   translate_flat cells (constructor_flat (Some [(''hello'', JStr ''Hello'')]))
      \<lparr>page = [(''hello'', Data (JStr ''a'')), (''constructor'', Data (JStr ''Builder''))], console = []\<rparr>
     = \<lparr>page_after = [(''hello'', Data (JStr ''Hello'')), (''constructor'', Builtin ''constructor'')],
        console_after = [],
        writes = [(0, Data (JStr ''Hello'')), (Suc 0, Builtin ''constructor'')],
        completion = Inr JUndefined\<rparr> \<and>
   translate_ml cells (\<lambda>n k. Inr (Data JUndefined))
      (constructor_ml (Some ''uk'') (Some [(''uk'', [(''hello'', JStr ''Pryvit'')])]))
      \<lparr>page = [(''hello'', Data (JStr ''a'')), (''constructor'', Data (JStr ''Builder''))], console = []\<rparr>
     = \<lparr>page_after = [(''hello'', Data (JStr ''Pryvit'')), (''constructor'', Builtin ''constructor'')],
        console_after = [],
        writes = [(0, Data (JStr ''Pryvit'')), (Suc 0, Builtin ''constructor'')],
        completion = Inr JUndefined\<rparr> \<and>
   translate_ml cells (\<lambda>n k. if n = ''constructor'' \<and> k = ''caller'' then Inl TypeError else Inr (Data JUndefined))
      (constructor_ml (Some ''constructor'') (Some [(''uk'', [(''hello'', JStr ''Pryvit'')])]))
      \<lparr>page = [(''caller'', Data (JStr ''a'')), (''hello'', Data (JStr ''b''))], console = []\<rparr>
     = \<lparr>page_after = [(''caller'', Data (JStr ''a'')), (''hello'', Data (JStr ''b''))],
        console_after = [], writes = [], completion = Inl TypeError\<rparr>"
  by (simp add: ev)

section \<open>No table\<close>

text \<open>
  Claim C5 says that a missing table degrades the lookup to not-found (static variants) or
  to the placeholder (proxy) instead of failing. The two static constructors default the
  table to \<open>{}\<close> and their callbacks warn. The proxy's constructor stores the argument as it
  is: with an empty table the trap yields the placeholder, with no table it reads a property
  of \<open>undefined\<close> and throws a TypeError.
\<close>

theorem missing_table_throws_in_proxy:
  "callback_flat (constructor_flat None) ''hello'' = Inr (Warn ''Translation not found for key: hello'') \<and>
   callback_ml (\<lambda>n k. Inr (Data JUndefined)) (constructor_ml (Some ''uk'') None) ''hello''
     = Inr (Warn ''Translation not found for key: hello in language: uk'') \<and>
   proxy_get (constructor_dyn (Some [])) ''hello'' = Inr (Data (JStr ''Translation not found for key: hello'')) \<and>
   proxy_get (constructor_dyn None) ''hello'' = Inl TypeError"
  by (simp add: ev)

section \<open>Running translate() again\<close>



section \<open>The diagnostic line\<close>

text \<open>
  Claim C7 says that the multi-language variants warn
  \<open>Translation not found for key: <key> in language: <tag>\<close>. The locale-formatter variant
  is one of them and words its line with \<open>in locale:\<close>: with a formatter that yields
  \<open>undefined\<close> for \<open>goodbye\<close>, it warns
  \<open>Translation not found for key: goodbye in locale: uk-UA\<close>.
\<close>

theorem locale_variant_diagnostic_counterexample:
  "callback_intl \<lparr>intl_locale = ''uk-UA'', intl_translations = [(''uk-UA'', [(''hello'', JStr ''Pryvit'')])],
                   formatter = (\<lambda>key. Inr (Data JUndefined))\<rparr> ''goodbye''
     = Inr (Warn ''Translation not found for key: goodbye in locale: uk-UA'') \<and>
   console_after (translate_intl cells
       \<lparr>intl_locale = ''uk-UA'', intl_translations = [(''uk-UA'', [(''hello'', JStr ''Pryvit'')])],
        formatter = (\<lambda>key. Inr (Data JUndefined))\<rparr>
       \<lparr>page = [(''goodbye'', Data (JStr ''a''))], console = []\<rparr>)
     = [''Translation not found for key: goodbye in locale: uk-UA''] \<and>
   ''Translation not found for key: goodbye in locale: uk-UA''
     \<noteq> ''Translation not found for key: goodbye in language: uk-UA''"
  by (simp add: ev)

text \<open>
  Claim C7, amended. A callback warns exactly when the value it read is falsy, and the
  line is then exactly \<open>Translation not found for key: <key>\<close> in the flat variant,
  \<open>Translation not found for key: <key> in language: <tag>\<close> in the multi-language variant and
  \<open>Translation not found for key: <key> in locale: <tag>\<close> in the locale-formatter variant.
  A call adds to the console these lines, one for each element it got to whose read is
  falsy, in document order, and nothing else; a call that returns got to every element.
\<close>

theorem diagnostic_line_per_variant:
  "(callback_flat tf key = Inr (Warn l) \<longleftrightarrow>
      \<not> truthy (obj_get (translateMap tf) key) \<and> l = ''Translation not found for key: '' @ key) \<and>
   (callback_ml h tm key = Inr (Warn l) \<longleftrightarrow>
      (\<exists>t. resolve h (ml_translations tm) (language tm) key = Inr t \<and> \<not> truthy t) \<and>
      l = ''Translation not found for key: '' @ key @ '' in language: '' @ language tm) \<and>
   (callback_intl ti key = Inr (Warn l) \<longleftrightarrow>
      (\<exists>t. formatter ti key = Inr t \<and> \<not> truthy t) \<and>
      l = ''Translation not found for key: '' @ key @ '' in locale: '' @ intl_locale ti) \<and>
   console_after (translate_flat D tf w) =
     console w @ map (\<lambda>(el, key). ''Translation not found for key: '' @ key)
       (filter (\<lambda>(el, key). \<not> truthy (obj_get (translateMap tf) key))
               (reached (callback_flat tf) (querySelectorAll D (page w)))) \<and>
   console_after (translate_ml D h tm w) =
     console w @ map (\<lambda>(el, key). ''Translation not found for key: '' @ key @ '' in language: '' @ language tm)
       (filter (\<lambda>(el, key). case resolve h (ml_translations tm) (language tm) key of
                               Inl err \<Rightarrow> False | Inr t \<Rightarrow> \<not> truthy t)
               (reached (callback_ml h tm) (querySelectorAll D (page w)))) \<and>
   console_after (translate_intl D ti w) =
     console w @ map (\<lambda>(el, key). ''Translation not found for key: '' @ key @ '' in locale: '' @ intl_locale ti)
       (filter (\<lambda>(el, key). case formatter ti key of Inl err \<Rightarrow> False | Inr t \<Rightarrow> \<not> truthy t)
               (reached (callback_intl ti) (querySelectorAll D (page w)))) \<and>
   (completion (translate_flat D tf w) = Inr u \<longrightarrow>
      reached (callback_flat tf) (querySelectorAll D (page w)) = querySelectorAll D (page w)) \<and>
   (completion (translate_ml D h tm w) = Inr u \<longrightarrow>
      reached (callback_ml h tm) (querySelectorAll D (page w)) = querySelectorAll D (page w)) \<and>
   (completion (translate_intl D ti w) = Inr u \<longrightarrow>
      reached (callback_intl ti) (querySelectorAll D (page w)) = querySelectorAll D (page w))"
proof (intro conjI)
  show "callback_flat tf key = Inr (Warn l) \<longleftrightarrow>
      \<not> truthy (obj_get (translateMap tf) key) \<and> l = ''Translation not found for key: '' @ key"
    by (auto simp: callback_flat_def Let_def assign_innerHTML_def)
  show "callback_ml h tm key = Inr (Warn l) \<longleftrightarrow>
      (\<exists>t. resolve h (ml_translations tm) (language tm) key = Inr t \<and> \<not> truthy t) \<and>
      l = ''Translation not found for key: '' @ key @ '' in language: '' @ language tm"
    unfolding callback_ml_def by (rule warn_iff)
  show "callback_intl ti key = Inr (Warn l) \<longleftrightarrow>
      (\<exists>t. formatter ti key = Inr t \<and> \<not> truthy t) \<and>
      l = ''Translation not found for key: '' @ key @ '' in locale: '' @ intl_locale ti"
    unfolding callback_intl_def by (rule warn_iff)
  show "console_after (translate_flat D tf w) =
     console w @ map (\<lambda>(el, key). ''Translation not found for key: '' @ key)
       (filter (\<lambda>(el, key). \<not> truthy (obj_get (translateMap tf) key))
               (reached (callback_flat tf) (querySelectorAll D (page w))))"
    by (rule translate_flat_effects)
  show "console_after (translate_ml D h tm w) =
     console w @ map (\<lambda>(el, key). ''Translation not found for key: '' @ key @ '' in language: '' @ language tm)
       (filter (\<lambda>(el, key). case resolve h (ml_translations tm) (language tm) key of
                               Inl err \<Rightarrow> False | Inr t \<Rightarrow> \<not> truthy t)
               (reached (callback_ml h tm) (querySelectorAll D (page w))))"
    unfolding translate_ml_effects
    by (subst filter_reached_reads [where read = "resolve h (ml_translations tm) (language tm)"])
       (simp_all add: callback_ml_def)
  show "console_after (translate_intl D ti w) =
     console w @ map (\<lambda>(el, key). ''Translation not found for key: '' @ key @ '' in locale: '' @ intl_locale ti)
       (filter (\<lambda>(el, key). case formatter ti key of Inl err \<Rightarrow> False | Inr t \<Rightarrow> \<not> truthy t)
               (reached (callback_intl ti) (querySelectorAll D (page w))))"
    unfolding translate_intl_effects
    by (subst filter_reached_reads [where read = "formatter ti"])
       (simp_all add: callback_intl_def)
  show "completion (translate_flat D tf w) = Inr u \<longrightarrow>
      reached (callback_flat tf) (querySelectorAll D (page w)) = querySelectorAll D (page w)"
    unfolding translate_flat_def by (blast dest: reached_all)
  show "completion (translate_ml D h tm w) = Inr u \<longrightarrow>
      reached (callback_ml h tm) (querySelectorAll D (page w)) = querySelectorAll D (page w)"
    unfolding translate_ml_def by (blast dest: reached_all)
  show "completion (translate_intl D ti w) = Inr u \<longrightarrow>
      reached (callback_intl ti) (querySelectorAll D (page w)) = querySelectorAll D (page w)"
    unfolding translate_intl_def by (blast dest: reached_all)
qed

theorem diagnostic_line_per_variant_witness:
  "callback_flat (constructor_flat (Some [(''hello'', JStr ''Hello'')])) ''absent''
     = Inr (Warn ''Translation not found for key: absent'') \<and>
   console_after (translate_ml cells (\<lambda>n k. Inr (Data JUndefined))
       (constructor_ml (Some ''uk'') (Some [(''en'', [(''hello'', JStr ''Hello''), (''goodbye'', JStr ''Goodbye'')]),
                                           (''uk'', [(''hello'', JStr ''Pryvit'')])]))
       \<lparr>page = [(''goodbye'', Data (JStr ''a''))], console = []\<rparr>)
     = [''Translation not found for key: goodbye in language: uk''] \<and>
   console_after (translate_intl cells
       \<lparr>intl_locale = ''uk-UA'', intl_translations = [(''uk-UA'', [(''hello'', JStr ''Pryvit'')])],
        formatter = (\<lambda>key. Inr (Data JUndefined))\<rparr>
       \<lparr>page = [(''goodbye'', Data (JStr ''a''))], console = []\<rparr>)
     = [''Translation not found for key: goodbye in locale: uk-UA'']"
proof -
  note t = diagnostic_line_per_variant [where D = cells and key = "''absent''"
      and l = "''Translation not found for key: absent''" and u = JUndefined
      and h = "\<lambda>n k. Inr (Data JUndefined)"
      and tf = "constructor_flat (Some [(''hello'', JStr ''Hello'')])"
      and tm = "constructor_ml (Some ''uk'') (Some [(''en'', [(''hello'', JStr ''Hello''), (''goodbye'', JStr ''Goodbye'')]),
                                           (''uk'', [(''hello'', JStr ''Pryvit'')])])"
      and ti = "\<lparr>intl_locale = ''uk-UA'', intl_translations = [(''uk-UA'', [(''hello'', JStr ''Pryvit'')])],
                   formatter = (\<lambda>key. Inr (Data JUndefined))\<rparr>"
      and w = "\<lparr>page = [(''goodbye'', Data (JStr ''a''))], console = []\<rparr>"]
  have nf: "\<not> truthy (obj_get (translateMap (constructor_flat (Some [(''hello'', JStr ''Hello'')]))) ''absent'')"
    by (simp add: constructor_flat_def obj_get_def object_prototype_names_def)
  have 1: "callback_flat (constructor_flat (Some [(''hello'', JStr ''Hello'')])) ''absent''
     = Inr (Warn ''Translation not found for key: absent'')"
    using t [THEN conjunct1] nf by simp
  have r2: "reached (callback_ml (\<lambda>n k. Inr (Data JUndefined))
       (constructor_ml (Some ''uk'') (Some [(''en'', [(''hello'', JStr ''Hello''), (''goodbye'', JStr ''Goodbye'')]),
                                           (''uk'', [(''hello'', JStr ''Pryvit'')])])))
       (querySelectorAll cells (page \<lparr>page = [(''goodbye'', Data (JStr ''a''))], console = []\<rparr>))
     = [(0, ''goodbye'')]"
    by (simp add: reached_def ev)
  have 2: "console_after (translate_ml cells (\<lambda>n k. Inr (Data JUndefined))
       (constructor_ml (Some ''uk'') (Some [(''en'', [(''hello'', JStr ''Hello''), (''goodbye'', JStr ''Goodbye'')]),
                                           (''uk'', [(''hello'', JStr ''Pryvit'')])]))
       \<lparr>page = [(''goodbye'', Data (JStr ''a''))], console = []\<rparr>)
     = [''Translation not found for key: goodbye in language: uk'']"
    unfolding t [THEN conjunct2, THEN conjunct2, THEN conjunct2, THEN conjunct2, THEN conjunct1] r2
    by (simp add: constructor_ml_def resolve_def obj_get_def object_prototype_names_def)
  have r3: "reached (callback_intl \<lparr>intl_locale = ''uk-UA'', intl_translations = [(''uk-UA'', [(''hello'', JStr ''Pryvit'')])],
                   formatter = (\<lambda>key. Inr (Data JUndefined))\<rparr>)
       (querySelectorAll cells (page \<lparr>page = [(''goodbye'', Data (JStr ''a''))], console = []\<rparr>))
     = [(0, ''goodbye'')]"
    by (simp add: reached_def ev)
  have 3: "console_after (translate_intl cells
       \<lparr>intl_locale = ''uk-UA'', intl_translations = [(''uk-UA'', [(''hello'', JStr ''Pryvit'')])],
        formatter = (\<lambda>key. Inr (Data JUndefined))\<rparr>
       \<lparr>page = [(''goodbye'', Data (JStr ''a''))], console = []\<rparr>)
     = [''Translation not found for key: goodbye in locale: uk-UA'']"
    unfolding t [THEN conjunct2, THEN conjunct2, THEN conjunct2, THEN conjunct2, THEN conjunct2, THEN conjunct1] r3
    by simp
  show ?thesis using 1 2 3 by blast
qed

section \<open>Switching the language\<close>

text \<open>
  \<open>setLanguage\<close> stores the tag and keeps the table, and a following \<open>translate()\<close> does
  not depend on the language that was active before.
\<close>

lemma setLanguage_forgets:
  "language (setLanguage T tm) = T \<and> ml_translations (setLanguage T tm) = ml_translations tm \<and>
   translate_ml D h (setLanguage T (tm\<lparr>language := L\<rparr>)) w = translate_ml D h (setLanguage T tm) w"
  by (simp add: setLanguage_def)

text \<open>
  Claim C8 says that after \<open>setLanguage(T)\<close> every key is resolved exclusively against
  the sub-map of \<open>T\<close>. After \<open>setLanguage('en')\<close> the key \<open>constructor\<close>, which the sub-map
  of \<open>en\<close> does not hold, is found all the same and the element is assigned the
  inherited builtin. And after \<open>setLanguage('constructor')\<close>, a tag with no sub-map, the
  key \<open>name\<close> is read from the builtin \<open>Object\<close>: in an engine where \<open>Object.name\<close> is
  \<open>'Object'\<close>, that text is written.
\<close>

theorem language_switch_reads_prototype:
  "map_of [(''hello'', JStr ''Hello'')] ''constructor'' = None \<and>
   translate_ml cells (\<lambda>n k. Inr (Data JUndefined))
      (setLanguage ''en'' (constructor_ml (Some ''uk'')
         (Some [(''en'', [(''hello'', JStr ''Hello'')]), (''uk'', [(''hello'', JStr ''Pryvit'')])])))
      \<lparr>page = [(''hello'', Data (JStr ''Pryvit'')), (''constructor'', Data (JStr ''Builder''))], console = []\<rparr>
     = \<lparr>page_after = [(''hello'', Data (JStr ''Hello'')), (''constructor'', Builtin ''constructor'')],
        console_after = [],
        writes = [(0, Data (JStr ''Hello'')), (Suc 0, Builtin ''constructor'')],
        completion = Inr JUndefined\<rparr> \<and>
   map_of [(''en'', [(''hello'', JStr ''Hello'')]), (''uk'', [(''hello'', JStr ''Pryvit'')])] ''constructor'' = None \<and>
   translate_ml cells (\<lambda>n k. if n = ''constructor'' \<and> k = ''name'' then Inr (Data (JStr ''Object''))
                                else Inr (Data JUndefined))
      (setLanguage ''constructor'' (constructor_ml (Some ''uk'')
         (Some [(''en'', [(''hello'', JStr ''Hello'')]), (''uk'', [(''hello'', JStr ''Pryvit'')])])))
      \<lparr>page = [(''name'', Data (JStr ''Imya''))], console = []\<rparr>
     = \<lparr>page_after = [(''name'', Data (JStr ''Object''))], console_after = [],
        writes = [(0, Data (JStr ''Object''))], completion = Inr JUndefined\<rparr>"
  by (simp add: ev)

section \<open>The proxy's usage loop\<close>

text \<open>
  With a table whose values all convert to a string, the loop returns and assigns to
  every element.
\<close>

lemma usage_dyn_with_table:
  assumes "\<forall>v \<in> snd ` set t. converts (Data v)"
  shows "completion (usage_dyn D \<lparr>dyn_translations = Some t\<rparr> w) = Inr JUndefined"
    and "map fst (writes (usage_dyn D \<lparr>dyn_translations = Some t\<rparr> w)) = map fst (querySelectorAll D (page w))"
proof -
  have c: "callback_dyn \<lparr>dyn_translations = Some t\<rparr> key =
        Inr (Assign (if truthy (obj_get t key) then obj_get t key
                     else Data (JStr (''Translation not found for key: '' @ key))))" for key
    using obj_get_converts [OF assms, of key]
    by (simp add: callback_dyn_def proxy_get_def assign_innerHTML_def Let_def)
  show r: "completion (usage_dyn D \<lparr>dyn_translations = Some t\<rparr> w) = Inr JUndefined"
    by (auto simp: usage_dyn_def forEach_returned c)
  have "reached (callback_dyn \<lparr>dyn_translations = Some t\<rparr>) (querySelectorAll D (page w))
        = querySelectorAll D (page w)"
    using r unfolding usage_dyn_def by (rule reached_all)
  moreover have "map fst (concat (map (\<lambda>(el, key). [(el, g key)]) xs)) = map fst xs"
    for g :: "string \<Rightarrow> reading" and xs :: "('b \<times> string) list"
    by (induction xs) auto
  ultimately show "map fst (writes (usage_dyn D \<lparr>dyn_translations = Some t\<rparr> w)) = map fst (querySelectorAll D (page w))"
    unfolding usage_dyn_def forEach_writes by (simp add: c)
qed

text \<open>
  Claim C9 says that the proxy variant writes to every target, the text when the key is
  present and the placeholder when it is absent, and never leaves a target as it was.
  Without a table the first read throws and the loop ends with no element written; and for
  a key absent from the table that \<open>Object.prototype\<close> has, what is written is the builtin,
  neither a text of the table nor the placeholder.
\<close>

theorem proxy_usage_without_table_writes_nothing:
  "usage_dyn cells (constructor_dyn None)
      \<lparr>page = [(''hello'', Data (JStr ''a'')), (''goodbye'', Data (JStr ''b''))], console = []\<rparr>
     = \<lparr>page_after = [(''hello'', Data (JStr ''a'')), (''goodbye'', Data (JStr ''b''))],
        console_after = [], writes = [], completion = Inl TypeError\<rparr> \<and>
   usage_dyn cells (constructor_dyn (Some [(''hello'', JStr ''Hello'')]))
      \<lparr>page = [(''constructor'', Data (JStr ''a''))], console = []\<rparr>
     = \<lparr>page_after = [(''constructor'', Builtin ''constructor'')],
        console_after = [], writes = [(0, Builtin ''constructor'')], completion = Inr JUndefined\<rparr>"
  by (simp add: ev)

section \<open>Instance field names in the proxy\<close>

text \<open>
  Claim C10 says that reading \<open>translations\<close> through the proxy yields the table object held
  by the instance field. The trap never reads \<open>target[prop]\<close>: it reads
  \<open>target.translations[prop]\<close>, so with the table of the usage example the result is the
  placeholder for the key \<open>translations\<close>, not the table.
\<close>

theorem field_name_lookup_counterexample:
  "proxy_get (constructor_dyn (Some [(''hello'', JStr ''Hello''), (''goodbye'', JStr ''Bye'')])) ''translations''
     = Inr (Data (JStr ''Translation not found for key: translations'')) \<and>
   proxy_get (constructor_dyn (Some [(''hello'', JStr ''Hello''), (''goodbye'', JStr ''Bye'')])) ''translations''
     \<noteq> Inr (Data (JObj [(''hello'', JStr ''Hello''), (''goodbye'', JStr ''Bye'')]))"
  by (simp add: ev)

text \<open>
  Claim C10, amended. The trap applies to every property name, so the instance field is out
  of reach through the proxy: \<open>translations\<close> is looked up in the table like any other key.
  It is not a property name of \<open>Object.prototype\<close>, so the result is the table's own entry
  under that key when it has a truthy one, and the placeholder otherwise.
\<close>

theorem field_name_is_an_ordinary_key:
  "proxy_get (constructor_dyn (Some t)) prop =
     Inr (if truthy (obj_get t prop) then obj_get t prop
          else Data (JStr (''Translation not found for key: '' @ prop))) \<and>
   obj_get t ''translations'' = (case map_of t ''translations'' of Some v \<Rightarrow> Data v | None \<Rightarrow> Data JUndefined) \<and>
   proxy_get (constructor_dyn (Some t)) ''translations'' =
     Inr (case map_of t ''translations'' of
            Some v \<Rightarrow> if truthy (Data v) then Data v else Data (JStr ''Translation not found for key: translations'')
          | None \<Rightarrow> Data (JStr ''Translation not found for key: translations''))"
  by (simp add: proxy_get_def constructor_dyn_def obj_get_def object_prototype_names_def Let_def
      split: option.splits)

end
